theory Spec2Isabelle
  imports Main "HOL-Library.Word" "HOL-Library.Multiset"
begin

unbundle bit_operations_syntax

section \<open>Values shared by both source files\<close>

text \<open>
  Go's fixed-width integers are words. A signed type and an unsigned type of the same
  width are the same word type here; \<open>sint\<close> reads the signed value, \<open>uint\<close> the
  unsigned one. Go's \<open>int\<close> and \<open>uintptr\<close> are 64 bits wide on the platforms the
  package builds for.
\<close>

type_synonym int32 = "32 word"
type_synonym uint32 = "32 word"
type_synonym uint64 = "64 word"
type_synonym uintptr = "64 word"
type_synonym go_int = "64 word"

text \<open>
  A Go \<open>error\<close> value is \<open>error option\<close>, \<open>None\<close> being \<open>nil\<close>. The two errors the
  package creates itself are \<open>linuxerr.EINVAL\<close> and \<open>linuxerr.ENOSYS\<close>; every
  other error comes back from the host and is kept as its number.
\<close>

datatype error = linuxerr_EINVAL | linuxerr_ENOSYS | host_Errno nat

text \<open>
  Modelled from the spec: the types \<open>waiter.EventMask\<close> and \<open>waiter.Entry\<close> of
  \<open>pkg/waiter\<close> are not among the source files. An event mask is a bit mask, the
  interest of a waiter; a \<open>*waiter.Entry\<close> is known by its address and carries the
  mask of the events its listener waits for.
\<close>

type_synonym EventMask = "64 word"

datatype Entry = Entry (entry_addr: nat) (entry_mask: EventMask)

text \<open>
  Everything the code does to the world outside its own objects is a call into another
  package. Each such call appends one event to the trace of the world, so that the order
  of calls, their arguments and their number can be stated. \<open>E_queue_Notify\<close> is the
  start of a broadcast on a waiter queue and \<open>E_NotifyEvent\<close> the delivery of the
  event to one waiter's listener; \<open>E_usermem\<close> stands for any access to guest memory
  through \<open>usermem.IO\<close>.
\<close>

datatype event =
    E_log_Traceback string
  | E_log_Warningf string string error
  | E_fdnotifier_RemoveFD int32
  | E_fdnotifier_UpdateFD int32
  | E_queue_Notify EventMask
  | E_NotifyEvent Entry EventMask
  | E_unix_Close go_int
  | E_ioctlInvoke int32 uint32 int32
  | E_usermem nat

text \<open>
  The world outside the descriptor objects: the readiness subscription that package
  \<open>fdnotifier\<close> keeps for each host descriptor (\<open>None\<close>: not subscribed), and the
  trace of calls made so far.
\<close>

record world =
  subscription :: "int32 \<Rightarrow> EventMask option"
  trace :: "event list"

definition emit :: "event \<Rightarrow> world \<Rightarrow> world" where
  "emit ev w = w\<lparr>trace := trace w @ [ev]\<rparr>"

text \<open>The events a computation from world \<open>w\<close> to world \<open>w'\<close> has appended.\<close>

definition emitted :: "world \<Rightarrow> world \<Rightarrow> event list" where
  "emitted w w' = drop (length (trace w)) (trace w')"

text \<open>
  Modelled from the spec: package \<open>log\<close> (\<open>pkg/log\<close>) is not among the source
  files. \<open>log.Traceback\<close> logs a diagnostic trace and \<open>log.Warningf\<close> a warning;
  both are kept as the event of the call with its arguments.
\<close>

definition log_Traceback :: "string \<Rightarrow> world \<Rightarrow> world" where
  "log_Traceback msg w = emit (E_log_Traceback msg) w"

section \<open>Memory mapping of the passthrough device descriptors\<close>

text \<open>
  Modelled from the spec: the types of packages \<open>memmap\<close>, \<open>hostarch\<close> and
  \<open>safemem\<close> that the methods take and return are not among the source files. They
  are ranges with a start and an end, an access type of three flags, a translation record
  with the four fields the code fills in, and a block sequence, whose zero value
  \<open>safemem.BlockSeq{}\<close> holds no block.
\<close>

record MappableRange =
  mr_Start :: uint64
  mr_End :: uint64

record FileRange =
  fr_Start :: uint64
  fr_End :: uint64

record AccessType =
  at_Read :: bool
  at_Write :: bool
  at_Execute :: bool

datatype Block = Block (blk_start: uintptr) (blk_len: nat)

type_synonym BlockSeq = "Block list"

definition BlockSeq_zero :: BlockSeq where
  "BlockSeq_zero = []"

definition BlockSeq_NumBytes :: "BlockSeq \<Rightarrow> nat" where
  "BlockSeq_NumBytes bs = sum_list (map blk_len bs)"

text \<open>
  The two descriptor variants and their embedded memory backings. The backing's field
  \<open>fd\<close> is a pointer back to the descriptor that embeds it, kept as that descriptor's
  address. The methods below read no other field of the descriptors.
\<close>

record tpuFDMemmapFile =
  tpu_mf_fd :: nat

record tpuFD =
  tpu_hostFD :: int32
  tpu_memmapFile :: tpuFDMemmapFile

record pciDeviceFdMemmapFile =
  pci_mf_fd :: nat

record pciDeviceFD =
  pci_hostFD :: int32
  pci_memmapFile :: pciDeviceFdMemmapFile

text \<open>
  A value of interface \<open>memmap.File\<close> is a pointer to one of the two backings; the
  pointer \<open>&fd.memmapFile\<close> is kept as the backing it points to.
\<close>

datatype File =
    File_tpuFDMemmapFile tpuFDMemmapFile
  | File_pciDeviceFdMemmapFile pciDeviceFdMemmapFile

record Translation =
  Source :: MappableRange
  File :: File
  Offset :: uint64
  Perms :: AccessType

text \<open>\<open>func (fd *tpuFD) Translate(ctx, required, optional, at)\<close>\<close>

definition tpuFD_Translate ::
  "tpuFD \<Rightarrow> MappableRange \<Rightarrow> MappableRange \<Rightarrow> AccessType \<Rightarrow> Translation list \<times> error option"
where
  "tpuFD_Translate fd required optional at =
     ([\<lparr>Source = optional,
        File = File_tpuFDMemmapFile (tpu_memmapFile fd),
        Offset = mr_Start optional,
        Perms = at\<rparr>], None)"

text \<open>\<open>func (fd *pciDeviceFD) Translate(ctx, required, optional, at)\<close>\<close>

definition pciDeviceFD_Translate ::
  "pciDeviceFD \<Rightarrow> MappableRange \<Rightarrow> MappableRange \<Rightarrow> AccessType \<Rightarrow> Translation list \<times> error option"
where
  "pciDeviceFD_Translate fd required optional at =
     ([\<lparr>Source = optional,
        File = File_pciDeviceFdMemmapFile (pci_memmapFile fd),
        Offset = mr_Start optional,
        Perms = at\<rparr>], None)"

text \<open>\<open>func (mf *tpuFDMemmapFile) MapInternal(fr, at)\<close>\<close>

definition tpuFDMemmapFile_MapInternal ::
  "tpuFDMemmapFile \<Rightarrow> FileRange \<Rightarrow> AccessType \<Rightarrow> world \<Rightarrow> (BlockSeq \<times> error option) \<times> world"
where
  "tpuFDMemmapFile_MapInternal mf fr at w =
     (let w1 = log_Traceback ''tpuproxy: rejecting tpuFdMemmapFile.MapInternal'' w
      in ((BlockSeq_zero, Some linuxerr_EINVAL), w1))"

text \<open>\<open>func (mf *pciDeviceFdMemmapFile) MapInternal(fr, at)\<close>\<close>

definition pciDeviceFdMemmapFile_MapInternal ::
  "pciDeviceFdMemmapFile \<Rightarrow> FileRange \<Rightarrow> AccessType \<Rightarrow> world \<Rightarrow> (BlockSeq \<times> error option) \<times> world"
where
  "pciDeviceFdMemmapFile_MapInternal mf fr at w =
     (let w1 = log_Traceback ''tpuproxy: rejecting pciDeviceFdMemmapFile.MapInternal'' w
      in ((BlockSeq_zero, Some linuxerr_EINVAL), w1))"

section \<open>The collaborators of the VFIO container descriptor\<close>

text \<open>
  The constants of packages \<open>linux\<close> (\<open>pkg/abi/linux\<close>) and \<open>waiter\<close>
  (\<open>pkg/waiter\<close>) that the descriptor names. Their declarations are not among the
  source files, so the methods take them as a parameter and every theorem holds
  whatever their values are.
\<close>

record pkg_consts =
  VFIO_CHECK_EXTENSION :: uint32
  VFIO_TYPE1_IOMMU :: int32
  VFIO_SPAPR_TCE_IOMMU :: int32
  VFIO_TYPE1v2_IOMMU :: int32
  EventHUp :: EventMask

text \<open>
  One instance, with the values of Linux's \<open>include/uapi/linux/vfio.h\<close>
  (\<open>_IO(';', 101)\<close> and the extension numbers 1, 2 and 3) and of \<open>POLLHUP\<close>. It is
  used to evaluate the methods on concrete inputs only.
\<close>

definition linux_consts :: pkg_consts where
  "linux_consts =
     \<lparr>VFIO_CHECK_EXTENSION = 0x3B65,
      VFIO_TYPE1_IOMMU = 1,
      VFIO_SPAPR_TCE_IOMMU = 2,
      VFIO_TYPE1v2_IOMMU = 3,
      EventHUp = 0x10\<rparr>"

text \<open>
  The host decides two things the code cannot: whether an update of a readiness
  subscription succeeds, and what an ioctl on the host descriptor returns. Both answers
  may depend on everything that has happened so far, so they are functions of the trace
  at the moment of the call.
\<close>

record host =
  host_UpdateFD :: "event list \<Rightarrow> int32 \<Rightarrow> error option"
  host_ioctl :: "event list \<Rightarrow> int32 \<Rightarrow> uint32 \<Rightarrow> int32 \<Rightarrow> uintptr \<times> error option"

text \<open>
  Modelled from the spec: \<open>waiter.Queue\<close> (\<open>pkg/waiter\<close>) is not among the source
  files. The spec calls it the internal queue of waiters, to which a waiter is added and
  from which it is removed, whose interest is the union of the interests of its waiters,
  and on which an event is broadcast to all currently registered waiters. The queue is
  the list of its entries in the order of registration.
\<close>

type_synonym Queue = "Entry list"

definition Queue_EventRegister :: "Entry \<Rightarrow> Queue \<Rightarrow> Queue" where
  "Queue_EventRegister e q = q @ [e]"

definition Queue_EventUnregister :: "Entry \<Rightarrow> Queue \<Rightarrow> Queue" where
  "Queue_EventUnregister e q = remove1 e q"

definition Queue_Events :: "Queue \<Rightarrow> EventMask" where
  "Queue_Events q = foldr (\<lambda>e m. entry_mask e OR m) q 0"

definition Queue_Notify :: "EventMask \<Rightarrow> Queue \<Rightarrow> world \<Rightarrow> world" where
  "Queue_Notify m q w =
     w\<lparr>trace := trace w @ E_queue_Notify m # map (\<lambda>e. E_NotifyEvent e m) q\<rparr>"

text \<open>
  Modelled from the spec: package \<open>fdnotifier\<close> (\<open>pkg/fdnotifier\<close>) is not among
  the source files. The spec calls it the readiness bridge: \<open>RemoveFD\<close> unsubscribes a
  host descriptor, and \<open>UpdateFD\<close> resynchronises the host-level subscription mask of
  a descriptor with the union of the interests of the waiters of its queue, or fails.
  A failed update is taken to leave the subscription as it was. The bridge reaches
  the queue through a pointer it was given when the descriptor was opened; here the
  queue's content at the moment of the call is passed along.
\<close>

definition fdnotifier_RemoveFD :: "int32 \<Rightarrow> world \<Rightarrow> world" where
  "fdnotifier_RemoveFD fd w =
     emit (E_fdnotifier_RemoveFD fd) (w\<lparr>subscription := (subscription w)(fd := None)\<rparr>)"

definition fdnotifier_UpdateFD :: "host \<Rightarrow> int32 \<Rightarrow> Queue \<Rightarrow> world \<Rightarrow> error option \<times> world" where
  "fdnotifier_UpdateFD h fd q w =
     (case host_UpdateFD h (trace w) fd of
        None \<Rightarrow>
          (None, emit (E_fdnotifier_UpdateFD fd)
                   (w\<lparr>subscription := (subscription w)(fd \<mapsto> Queue_Events q)\<rparr>))
      | Some err \<Rightarrow> (Some err, emit (E_fdnotifier_UpdateFD fd) w))"

text \<open>
  Modelled from the spec: \<open>unix.Close\<close> closes the host descriptor. The code ignores
  its result.
\<close>

definition unix_Close :: "go_int \<Rightarrow> world \<Rightarrow> world" where
  "unix_Close fd w = emit (E_unix_Close fd) w"

text \<open>
  Modelled from the spec: \<open>ioctlInvoke\<close> is a function of the package that is not
  among the source files. The spec calls it the host passthrough call: it takes a host
  descriptor, a command code and a value, issues the ioctl on the host descriptor and
  returns the host's result or error.
\<close>

definition ioctlInvoke ::
  "host \<Rightarrow> int32 \<Rightarrow> uint32 \<Rightarrow> int32 \<Rightarrow> world \<Rightarrow> (uintptr \<times> error option) \<times> world"
where
  "ioctlInvoke h fd cmd arg w = (host_ioctl h (trace w) fd cmd arg, emit (E_ioctlInvoke fd cmd arg) w)"

text \<open>\<open>log.Warningf\<close> with the two arguments the code formats: a string and an error.\<close>

definition log_Warningf :: "string \<Rightarrow> string \<Rightarrow> error \<Rightarrow> world \<Rightarrow> world" where
  "log_Warningf format s err w = emit (E_log_Warningf format s err) w"

text \<open>
  Modelled from the spec: \<open>context.Context\<close>, \<open>kernel.TaskFromContext\<close> and
  \<open>arch.SyscallArguments\<close> are not among the source files. A context either carries
  the task it runs on or none; the six syscall arguments are register-wide words, of
  which \<open>Uint\<close> and \<open>Int\<close> take the low 32 bits.
\<close>

datatype Context = Context (ctx_task: "nat option")

definition TaskFromContext :: "Context \<Rightarrow> nat option" where
  "TaskFromContext ctx = ctx_task ctx"

datatype SyscallArguments =
  SyscallArguments (arg0: uintptr) (arg1: uintptr) (arg2: uintptr)
                   (arg3: uintptr) (arg4: uintptr) (arg5: uintptr)

definition SyscallArgument_Uint :: "uintptr \<Rightarrow> uint32" where
  "SyscallArgument_Uint a = ucast a"

definition SyscallArgument_Int :: "uintptr \<Rightarrow> int32" where
  "SyscallArgument_Int a = ucast a"

section \<open>The VFIO container descriptor\<close>

text \<open>
  \<open>type vfioFd struct\<close>: the methods below read \<open>hostFd\<close> and \<open>queue\<close> only. A
  method that changes the queue returns the descriptor it leaves behind.
\<close>

record vfioFd =
  hostFd :: int32
  queue :: Queue

text \<open>
  A Go function either returns or panics. The two panics of the file are a string
  literal and \<open>fmt.Sprint\<close> of a string and an error.
\<close>

datatype panic = panic_string string | panic_Sprint string error

datatype 'a outcome = Returned 'a | Panicked panic

text \<open>\<open>type extension int32\<close> and \<open>func (e extension) String()\<close>\<close>

type_synonym extension = int32

definition extension_String :: "pkg_consts \<Rightarrow> extension \<Rightarrow> string" where
  "extension_String K e =
     (if e = VFIO_TYPE1_IOMMU K then ''VFIO_TYPE1_IOMMU''
      else if e = VFIO_SPAPR_TCE_IOMMU K then ''VFIO_SPAPR_TCE_IOMMU''
      else if e = VFIO_TYPE1v2_IOMMU K then ''VFIO_TYPE1v2_IOMMU''
      else [])"

text \<open>\<open>func (fd *vfioFd) Release(context.Context)\<close>\<close>

definition vfioFd_Release :: "pkg_consts \<Rightarrow> vfioFd \<Rightarrow> world \<Rightarrow> world" where
  "vfioFd_Release K fd w =
     (let w1 = fdnotifier_RemoveFD (hostFd fd) w;
          w2 = Queue_Notify (EventHUp K) (queue fd) w1;
          w3 = unix_Close (scast (hostFd fd)) w2
      in w3)"

text \<open>\<open>func (fd *vfioFd) EventRegister(e *waiter.Entry) error\<close>\<close>

definition vfioFd_EventRegister ::
  "host \<Rightarrow> vfioFd \<Rightarrow> Entry \<Rightarrow> world \<Rightarrow> error option \<times> vfioFd \<times> world"
where
  "vfioFd_EventRegister h fd e w =
     (let fd1 = fd\<lparr>queue := Queue_EventRegister e (queue fd)\<rparr>;
          (r, w1) = fdnotifier_UpdateFD h (hostFd fd1) (queue fd1) w
      in case r of
           Some err \<Rightarrow> (Some err, fd1\<lparr>queue := Queue_EventUnregister e (queue fd1)\<rparr>, w1)
         | None \<Rightarrow> (None, fd1, w1))"

text \<open>\<open>func (fd *vfioFd) EventUnregister(e *waiter.Entry)\<close>\<close>

definition vfioFd_EventUnregister ::
  "host \<Rightarrow> vfioFd \<Rightarrow> Entry \<Rightarrow> world \<Rightarrow> unit outcome \<times> vfioFd \<times> world"
where
  "vfioFd_EventUnregister h fd e w =
     (let fd1 = fd\<lparr>queue := Queue_EventUnregister e (queue fd)\<rparr>;
          (r, w1) = fdnotifier_UpdateFD h (hostFd fd1) (queue fd1) w
      in case r of
           Some err \<Rightarrow> (Panicked (panic_Sprint ''UpdateFD:'' err), fd1, w1)
         | None \<Rightarrow> (Returned (), fd1, w1))"

text \<open>\<open>func (fd *vfioFd) checkExtension(ext extension) (uintptr, error)\<close>\<close>

definition vfioFd_checkExtension ::
  "pkg_consts \<Rightarrow> host \<Rightarrow> vfioFd \<Rightarrow> extension \<Rightarrow> world \<Rightarrow> (uintptr \<times> error option) \<times> world"
where
  "vfioFd_checkExtension K h fd ext w =
     (if ext = VFIO_TYPE1_IOMMU K \<or> ext = VFIO_SPAPR_TCE_IOMMU K \<or> ext = VFIO_TYPE1v2_IOMMU K
      then
        (let ((ret, err), w1) = ioctlInvoke h (hostFd fd) (VFIO_CHECK_EXTENSION K) ext w
         in case err of
              Some e \<Rightarrow>
                ((0, Some e),
                 log_Warningf ''check VFIO extension %s: %v'' (extension_String K ext) e w1)
            | None \<Rightarrow> ((ret, None), w1))
      else ((0, Some linuxerr_EINVAL), w))"

text \<open>
  \<open>func (fd *vfioFd) Ioctl(ctx, uio, sysno, args) (uintptr, error)\<close>. The body uses
  neither \<open>uio\<close> nor \<open>sysno\<close>.
\<close>

definition vfioFd_Ioctl ::
  "pkg_consts \<Rightarrow> host \<Rightarrow> vfioFd \<Rightarrow> Context \<Rightarrow> SyscallArguments \<Rightarrow> world
     \<Rightarrow> (uintptr \<times> error option) outcome \<times> world"
where
  "vfioFd_Ioctl K h fd ctx args w =
     (let cmd = SyscallArgument_Uint (arg1 args);
          t = TaskFromContext ctx
      in if t = None
         then (Panicked (panic_string ''Ioctl should be called from a task context''), w)
         else if cmd = VFIO_CHECK_EXTENSION K
         then (let (r, w1) = vfioFd_checkExtension K h fd (SyscallArgument_Int (arg2 args)) w
               in (Returned r, w1))
         else (Returned (0, Some linuxerr_ENOSYS), w))"

section \<open>Reading a trace\<close>

text \<open>The events that are calls to the host: ioctl, close, and the readiness bridge.\<close>

fun is_host_call :: "event \<Rightarrow> bool" where
  "is_host_call (E_ioctlInvoke fd cmd arg) = True"
| "is_host_call (E_unix_Close fd) = True"
| "is_host_call (E_fdnotifier_RemoveFD fd) = True"
| "is_host_call (E_fdnotifier_UpdateFD fd) = True"
| "is_host_call ev = False"

fun is_guest_access :: "event \<Rightarrow> bool" where
  "is_guest_access (E_usermem a) = True"
| "is_guest_access ev = False"

text \<open>\<open>precedes a b tr\<close>: \<open>b\<close> occurs in \<open>tr\<close> after the first occurrence of \<open>a\<close>.\<close>

fun precedes :: "'a \<Rightarrow> 'a \<Rightarrow> 'a list \<Rightarrow> bool" where
  "precedes a b [] = False"
| "precedes a b (x # xs) = (if x = a then b \<in> set xs else precedes a b xs)"

text \<open>Two hosts and a starting point to evaluate the methods on.\<close>

definition host_ok :: host where
  "host_ok = \<lparr>host_UpdateFD = (\<lambda>tr fd. None), host_ioctl = (\<lambda>tr fd cmd arg. (1, None))\<rparr>"

definition host_failing :: host where
  "host_failing =
     \<lparr>host_UpdateFD = (\<lambda>tr fd. Some (host_Errno 9)),
      host_ioctl = (\<lambda>tr fd cmd arg. (5, Some (host_Errno 25)))\<rparr>"

definition world0 :: world where
  "world0 = \<lparr>subscription = (\<lambda>fd. None), trace = []\<rparr>"

definition fd0 :: vfioFd where
  "fd0 = \<lparr>hostFd = 7, queue = []\<rparr>"

definition fd2 :: vfioFd where
  "fd2 = \<lparr>hostFd = 7, queue = [Entry 1 1, Entry 2 0x10]\<rparr>"

definition entry1 :: Entry where
  "entry1 = Entry 1 1"




section \<open>Properties of the memory mapping\<close>

lemma emitted_emit: "emitted w (emit ev w) = [ev]"
  by (simp add: emitted_def emit_def)

lemma emitted_self: "emitted w w = []"
  by (simp add: emitted_def)

text \<open>
  Claim C1. For every file range and every access type, \<open>MapInternal\<close> of both memory
  backings returns the error \<open>linuxerr.EINVAL\<close> together with the empty block sequence
  (no block, no byte), and the only thing it does to the world is to log one traceback,
  which it does before it returns.
\<close>

theorem MapInternal_always_EINVAL:
  "fst (tpuFDMemmapFile_MapInternal tmf fr at w) = ([], Some linuxerr_EINVAL)
   \<and> BlockSeq_NumBytes (fst (fst (tpuFDMemmapFile_MapInternal tmf fr at w))) = 0
   \<and> snd (tpuFDMemmapFile_MapInternal tmf fr at w)
       = w\<lparr>trace := trace w @ [E_log_Traceback ''tpuproxy: rejecting tpuFdMemmapFile.MapInternal'']\<rparr>
   \<and> fst (pciDeviceFdMemmapFile_MapInternal pmf fr at w) = ([], Some linuxerr_EINVAL)
   \<and> BlockSeq_NumBytes (fst (fst (pciDeviceFdMemmapFile_MapInternal pmf fr at w))) = 0
   \<and> snd (pciDeviceFdMemmapFile_MapInternal pmf fr at w)
       = w\<lparr>trace := trace w @ [E_log_Traceback ''tpuproxy: rejecting pciDeviceFdMemmapFile.MapInternal'']\<rparr>"
  by (simp add: tpuFDMemmapFile_MapInternal_def pciDeviceFdMemmapFile_MapInternal_def
      log_Traceback_def emit_def BlockSeq_zero_def BlockSeq_NumBytes_def)

text \<open>
  Claim C4. For every required range, optional range and access type, \<open>Translate\<close> of
  both descriptor variants returns no error and exactly one translation: its source is
  the optional range, its file the descriptor's own memory backing, its offset the start
  of the optional range and its permissions the requested access. The required range
  does not occur in the result.
\<close>

theorem Translate_one_record_of_optional:
  "tpuFD_Translate tfd required optional at =
     ([\<lparr>Source = optional, File = File_tpuFDMemmapFile (tpu_memmapFile tfd),
        Offset = mr_Start optional, Perms = at\<rparr>], None)
   \<and> pciDeviceFD_Translate pfd required optional at =
     ([\<lparr>Source = optional, File = File_pciDeviceFdMemmapFile (pci_memmapFile pfd),
        Offset = mr_Start optional, Perms = at\<rparr>], None)
   \<and> length (fst (tpuFD_Translate tfd required optional at)) = 1
   \<and> length (fst (pciDeviceFD_Translate pfd required optional at)) = 1
   \<and> tpuFD_Translate tfd required optional at = tpuFD_Translate tfd required' optional at
   \<and> pciDeviceFD_Translate pfd required optional at = pciDeviceFD_Translate pfd required' optional at"
  by (simp add: tpuFD_Translate_def pciDeviceFD_Translate_def)

section \<open>Properties of the VFIO container descriptor\<close>

lemma emitted_append: "trace w' = trace w @ evs \<Longrightarrow> emitted w w' = evs"
  by (simp add: emitted_def)

lemma precedes_append: "a \<in> set xs \<Longrightarrow> b \<in> set ys \<Longrightarrow> precedes a b (xs @ ys)"
  by (induction xs) auto

subsection \<open>Extension negotiation\<close>

text \<open>
  Claim C2. For each of the three allowed extension codes, \<open>checkExtension\<close> makes
  exactly one call to the host, the extension-check ioctl on the host descriptor with the
  code as its \<open>int32\<close> argument, and when the host reports no error it returns the
  host's result unchanged and does nothing else. For every other code it returns
  \<open>linuxerr.EINVAL\<close> with the value 0 and leaves the world as it was, so that no call
  to the host is made.
\<close>

theorem checkExtension_allow_list:
  "(ext \<in> {VFIO_TYPE1_IOMMU K, VFIO_SPAPR_TCE_IOMMU K, VFIO_TYPE1v2_IOMMU K} \<longrightarrow>
      filter is_host_call (emitted w (snd (vfioFd_checkExtension K h fd ext w)))
        = [E_ioctlInvoke (hostFd fd) (VFIO_CHECK_EXTENSION K) ext]
      \<and> (snd (host_ioctl h (trace w) (hostFd fd) (VFIO_CHECK_EXTENSION K) ext) = None \<longrightarrow>
           vfioFd_checkExtension K h fd ext w
             = ((fst (host_ioctl h (trace w) (hostFd fd) (VFIO_CHECK_EXTENSION K) ext), None),
                emit (E_ioctlInvoke (hostFd fd) (VFIO_CHECK_EXTENSION K) ext) w)))
   \<and> (ext \<notin> {VFIO_TYPE1_IOMMU K, VFIO_SPAPR_TCE_IOMMU K, VFIO_TYPE1v2_IOMMU K} \<longrightarrow>
        vfioFd_checkExtension K h fd ext w = ((0, Some linuxerr_EINVAL), w)
        \<and> filter is_host_call (emitted w (snd (vfioFd_checkExtension K h fd ext w))) = [])"
  by (cases "host_ioctl h (trace w) (hostFd fd) (VFIO_CHECK_EXTENSION K) ext")
     (auto simp: vfioFd_checkExtension_def ioctlInvoke_def log_Warningf_def emit_def emitted_def
           split: option.splits)

theorem checkExtension_allow_list_witness:
  "vfioFd_checkExtension linux_consts host_ok fd0 1 world0
     = ((1, None), emit (E_ioctlInvoke 7 0x3B65 1) world0)
   \<and> filter is_host_call (emitted world0 (snd (vfioFd_checkExtension linux_consts host_ok fd0 1 world0)))
     = [E_ioctlInvoke 7 0x3B65 1]
   \<and> vfioFd_checkExtension linux_consts host_ok fd0 9999 world0 = ((0, Some linuxerr_EINVAL), world0)"
  using checkExtension_allow_list [where ext = 1 and K = linux_consts and h = host_ok and fd = fd0 and w = world0]
        checkExtension_allow_list [where ext = 9999 and K = linux_consts and h = host_ok and fd = fd0 and w = world0]
  by (simp add: linux_consts_def host_ok_def fd0_def emitted_emit)

subsection \<open>Dispatch of control commands\<close>

text \<open>
  Claim C3. Called from a task context, as its contract requires, \<open>Ioctl\<close> answers
  every command other than \<open>VFIO_CHECK_EXTENSION\<close> with the value 0 and the error
  \<open>linuxerr.ENOSYS\<close> and leaves the world as it was: no call to the host and no access
  to guest memory. The command is the low 32 bits of the second syscall argument. The
  extension check is the only command dispatched: for it \<open>Ioctl\<close> returns what
  \<open>checkExtension\<close> returns on the low 32 bits of the third syscall argument.
\<close>

theorem Ioctl_dispatches_check_extension_only:
  assumes "TaskFromContext ctx \<noteq> None"
  shows "(SyscallArgument_Uint (arg1 args) \<noteq> VFIO_CHECK_EXTENSION K \<longrightarrow>
            vfioFd_Ioctl K h fd ctx args w = (Returned (0, Some linuxerr_ENOSYS), w)
            \<and> filter is_host_call (emitted w (snd (vfioFd_Ioctl K h fd ctx args w))) = []
            \<and> filter is_guest_access (emitted w (snd (vfioFd_Ioctl K h fd ctx args w))) = [])
       \<and> (SyscallArgument_Uint (arg1 args) = VFIO_CHECK_EXTENSION K \<longrightarrow>
            vfioFd_Ioctl K h fd ctx args w
              = (Returned (fst (vfioFd_checkExtension K h fd (SyscallArgument_Int (arg2 args)) w)),
                 snd (vfioFd_checkExtension K h fd (SyscallArgument_Int (arg2 args)) w)))"
  using assms by (auto simp: vfioFd_Ioctl_def Let_def emitted_self split: prod.splits)

theorem Ioctl_dispatches_check_extension_only_witness:
  "vfioFd_Ioctl linux_consts host_ok fd0 (Context (Some 1)) (SyscallArguments 0 0xBEEF 1 0 0 0) world0
     = (Returned (0, Some linuxerr_ENOSYS), world0)
   \<and> vfioFd_Ioctl linux_consts host_ok fd0 (Context (Some 1)) (SyscallArguments 0 0x3B65 3 0 0 0) world0
     = (Returned (fst (vfioFd_checkExtension linux_consts host_ok fd0 3 world0)),
        snd (vfioFd_checkExtension linux_consts host_ok fd0 3 world0))"
  using Ioctl_dispatches_check_extension_only
          [where ctx = "Context (Some 1)" and args = "SyscallArguments 0 0xBEEF 1 0 0 0"
             and K = linux_consts and h = host_ok and fd = fd0 and w = world0]
        Ioctl_dispatches_check_extension_only
          [where ctx = "Context (Some 1)" and args = "SyscallArguments 0 0x3B65 3 0 0 0"
             and K = linux_consts and h = host_ok and fd = fd0 and w = world0]
  by (simp add: TaskFromContext_def SyscallArgument_Uint_def SyscallArgument_Int_def linux_consts_def)

text \<open>
  Claim C8. Without a task in the context \<open>Ioctl\<close> panics, whatever the command and
  the other arguments are, and has done nothing to the world by then. With a task in
  the context it never panics: it returns.
\<close>

theorem Ioctl_task_context:
  "(TaskFromContext ctx = None \<longrightarrow>
      vfioFd_Ioctl K h fd ctx args w
        = (Panicked (panic_string ''Ioctl should be called from a task context''), w))
   \<and> (TaskFromContext ctx \<noteq> None \<longrightarrow>
        (\<exists>r. fst (vfioFd_Ioctl K h fd ctx args w) = Returned r))"
  by (auto simp: vfioFd_Ioctl_def Let_def split: prod.splits)

theorem Ioctl_task_context_witness:
  "vfioFd_Ioctl linux_consts host_ok fd0 (Context None) (SyscallArguments 0 0xBEEF 0 0 0 0) world0
     = (Panicked (panic_string ''Ioctl should be called from a task context''), world0)
   \<and> vfioFd_Ioctl linux_consts host_ok fd0 (Context None) (SyscallArguments 0 0x3B65 1 0 0 0) world0
     = (Panicked (panic_string ''Ioctl should be called from a task context''), world0)
   \<and> (\<exists>r. fst (vfioFd_Ioctl linux_consts host_ok fd0 (Context (Some 1))
                  (SyscallArguments 0 0x3B65 1 0 0 0) world0) = Returned r)"
  using Ioctl_task_context [where ctx = "Context None" and K = linux_consts and h = host_ok
          and fd = fd0 and args = "SyscallArguments 0 0xBEEF 0 0 0 0" and w = world0]
        Ioctl_task_context [where ctx = "Context None" and K = linux_consts and h = host_ok
          and fd = fd0 and args = "SyscallArguments 0 0x3B65 1 0 0 0" and w = world0]
        Ioctl_task_context [where ctx = "Context (Some 1)" and K = linux_consts and h = host_ok
          and fd = fd0 and args = "SyscallArguments 0 0x3B65 1 0 0 0" and w = world0]
  by (simp add: TaskFromContext_def)

text \<open>
  Claim C10. Whenever \<open>checkExtension\<close> or \<open>Ioctl\<close> returns an error that is not
  \<open>nil\<close>, the value returned with it is 0, whatever value the host gave with its error.
\<close>

theorem error_value_zero:
  "(vfioFd_checkExtension K h fd ext w = ((v, Some err), w') \<longrightarrow> v = 0)
   \<and> (vfioFd_Ioctl K h fd ctx args w = (Returned (v, Some err), w') \<longrightarrow> v = 0)"
proof -
  have ce: "v = 0" if "vfioFd_checkExtension K h fd ext w = ((v, Some err), w')" for v err w' ext
    using that
    by (auto simp: vfioFd_checkExtension_def ioctlInvoke_def split: if_splits prod.splits option.splits)
  have "v = 0" if "vfioFd_Ioctl K h fd ctx args w = (Returned (v, Some err), w')"
    using that ce [of "SyscallArgument_Int (arg2 args)" v err w']
    by (auto simp: vfioFd_Ioctl_def Let_def split: if_splits prod.splits)
  with ce show ?thesis by blast
qed

theorem error_value_zero_witness:
  "host_ioctl host_failing [] 7 0x3B65 1 = (5, Some (host_Errno 25))
   \<and> fst (vfioFd_checkExtension linux_consts host_failing fd0 1 world0) = (0, Some (host_Errno 25))
   \<and> fst (vfioFd_Ioctl linux_consts host_failing fd0 (Context (Some 1))
            (SyscallArguments 0 0x3B65 1 0 0 0) world0) = Returned (0, Some (host_Errno 25))"
proof -
  let ?c = "vfioFd_checkExtension linux_consts host_failing fd0 1 world0"
  let ?i = "vfioFd_Ioctl linux_consts host_failing fd0 (Context (Some 1))
              (SyscallArguments 0 0x3B65 1 0 0 0) world0"
  have c: "?c = ((fst (fst ?c), Some (host_Errno 25)), snd ?c)"
    by (simp add: vfioFd_checkExtension_def ioctlInvoke_def linux_consts_def host_failing_def
          fd0_def world0_def)
  have i: "?i = (Returned (fst (fst ?c), Some (host_Errno 25)), snd ?i)"
    by (simp add: vfioFd_Ioctl_def TaskFromContext_def SyscallArgument_Uint_def
          SyscallArgument_Int_def vfioFd_checkExtension_def ioctlInvoke_def linux_consts_def
          host_failing_def fd0_def world0_def)
  note z = error_value_zero [where K = linux_consts and h = host_failing and fd = fd0 and ext = 1
             and w = world0 and v = "fst (fst ?c)" and err = "host_Errno 25" and w' = "snd ?c"]
  from z c have v: "fst (fst ?c) = 0" by blast
  have h: "host_ioctl host_failing [] 7 0x3B65 1 = (5, Some (host_Errno 25))"
    by (simp add: host_failing_def)
  have "fst ?c = (0, Some (host_Errno 25))"
    using c v by (metis fst_conv)
  moreover have "fst ?i = Returned (0, Some (host_Errno 25))"
    using i v by (metis fst_conv)
  ultimately show ?thesis using h by simp
qed

subsection \<open>Release\<close>

lemma Release_trace:
  "trace (vfioFd_Release K fd w) =
     trace w @ ([E_fdnotifier_RemoveFD (hostFd fd), E_queue_Notify (EventHUp K)]
                @ map (\<lambda>e. E_NotifyEvent e (EventHUp K)) (queue fd))
             @ [E_unix_Close (scast (hostFd fd))]"
  by (simp add: vfioFd_Release_def fdnotifier_RemoveFD_def Queue_Notify_def unix_Close_def emit_def)

text \<open>
  Claim C5. \<open>Release\<close> does three things, always and in this order: it unsubscribes
  the host descriptor from the readiness bridge, it broadcasts \<open>EventHUp\<close> on the
  queue, which delivers the event to every waiter registered at that moment, and it
  closes the host descriptor. The two calls to the host are the unsubscription and the
  close; the broadcast lies between them, and the delivery to each registered waiter
  comes before the close.
\<close>

theorem Release_order:
  "vfioFd_Release K fd w =
     w\<lparr>subscription := (subscription w)(hostFd fd := None),
       trace := trace w @ [E_fdnotifier_RemoveFD (hostFd fd), E_queue_Notify (EventHUp K)]
                        @ map (\<lambda>e. E_NotifyEvent e (EventHUp K)) (queue fd)
                        @ [E_unix_Close (scast (hostFd fd))]\<rparr>
   \<and> filter is_host_call (emitted w (vfioFd_Release K fd w))
       = [E_fdnotifier_RemoveFD (hostFd fd), E_unix_Close (scast (hostFd fd))]
   \<and> precedes (E_fdnotifier_RemoveFD (hostFd fd)) (E_queue_Notify (EventHUp K))
        (emitted w (vfioFd_Release K fd w))
   \<and> precedes (E_queue_Notify (EventHUp K)) (E_unix_Close (scast (hostFd fd)))
        (emitted w (vfioFd_Release K fd w))
   \<and> (\<forall>e \<in> set (queue fd).
        precedes (E_NotifyEvent e (EventHUp K)) (E_unix_Close (scast (hostFd fd)))
          (emitted w (vfioFd_Release K fd w)))"
proof -
  let ?evs = "[E_fdnotifier_RemoveFD (hostFd fd), E_queue_Notify (EventHUp K)]
                @ map (\<lambda>e. E_NotifyEvent e (EventHUp K)) (queue fd)"
  let ?close = "E_unix_Close (scast (hostFd fd)) :: event"
  have em: "emitted w (vfioFd_Release K fd w) = ?evs @ [?close]"
    by (rule emitted_append) (simp add: Release_trace)
  have a: "vfioFd_Release K fd w =
     w\<lparr>subscription := (subscription w)(hostFd fd := None),
       trace := trace w @ [E_fdnotifier_RemoveFD (hostFd fd), E_queue_Notify (EventHUp K)]
                        @ map (\<lambda>e. E_NotifyEvent e (EventHUp K)) (queue fd)
                        @ [?close]\<rparr>"
    by (simp add: vfioFd_Release_def fdnotifier_RemoveFD_def Queue_Notify_def unix_Close_def emit_def)
  have b: "filter is_host_call (emitted w (vfioFd_Release K fd w))
       = [E_fdnotifier_RemoveFD (hostFd fd), ?close]"
    unfolding em by (simp add: filter_empty_conv)
  have c: "precedes (E_fdnotifier_RemoveFD (hostFd fd)) (E_queue_Notify (EventHUp K))
        (emitted w (vfioFd_Release K fd w))"
    unfolding em by simp
  have d: "precedes (E_queue_Notify (EventHUp K)) ?close (emitted w (vfioFd_Release K fd w))"
    unfolding em by simp
  have e: "precedes (E_NotifyEvent e (EventHUp K)) ?close (emitted w (vfioFd_Release K fd w))"
    if "e \<in> set (queue fd)" for e
    unfolding em using that by (intro precedes_append) auto
  from a b c d e show ?thesis by blast
qed

theorem Release_order_witness:
  "trace (vfioFd_Release linux_consts fd2 world0)
     = [E_fdnotifier_RemoveFD 7, E_queue_Notify 0x10, E_NotifyEvent (Entry 1 1) 0x10,
        E_NotifyEvent (Entry 2 0x10) 0x10, E_unix_Close 7]
   \<and> precedes (E_NotifyEvent (Entry 1 1) 0x10) (E_unix_Close 7)
        (emitted world0 (vfioFd_Release linux_consts fd2 world0))
   \<and> precedes (E_NotifyEvent (Entry 2 0x10) 0x10) (E_unix_Close 7)
        (emitted world0 (vfioFd_Release linux_consts fd2 world0))"
  using Release_order [where K = linux_consts and fd = fd2 and w = world0]
  by (simp add: linux_consts_def fd2_def world0_def emitted_def)

subsection \<open>Waiters\<close>

text \<open>
  Claim C6. \<open>EventRegister\<close> adds the entry to the queue and then makes one call to
  the readiness bridge to resynchronise the host subscription. When that update fails,
  the entry is taken out of the queue again, the error of the update is returned and the
  subscription is as before; the queue then holds the waiters it held before, and is the
  very same list when the entry was not already registered. When the update succeeds,
  \<open>nil\<close> is returned, the entry is in the queue and the host subscription is the
  interest of the queue with the entry.
\<close>

theorem EventRegister_rollback:
  assumes "vfioFd_EventRegister h fd e w = (r, fd', w')"
  shows "emitted w w' = [E_fdnotifier_UpdateFD (hostFd fd)]
       \<and> hostFd fd' = hostFd fd
       \<and> (host_UpdateFD h (trace w) (hostFd fd) = Some err \<longrightarrow>
            r = Some err
            \<and> queue fd' = Queue_EventUnregister e (Queue_EventRegister e (queue fd))
            \<and> mset (queue fd') = mset (queue fd)
            \<and> (e \<notin> set (queue fd) \<longrightarrow> queue fd' = queue fd)
            \<and> subscription w' = subscription w)
       \<and> (host_UpdateFD h (trace w) (hostFd fd) = None \<longrightarrow>
            r = None
            \<and> queue fd' = Queue_EventRegister e (queue fd)
            \<and> e \<in> set (queue fd')
            \<and> subscription w' (hostFd fd) = Some (Queue_Events (queue fd')))"
  using assms
  by (auto simp: vfioFd_EventRegister_def Let_def fdnotifier_UpdateFD_def Queue_EventRegister_def
        Queue_EventUnregister_def emitted_def emit_def remove1_append
        split: option.splits)

theorem EventRegister_rollback_witness:
  "vfioFd_EventRegister host_failing fd2 entry1 world0
     = (Some (host_Errno 9), fd2\<lparr>queue := remove1 entry1 (queue fd2 @ [entry1])\<rparr>,
        emit (E_fdnotifier_UpdateFD 7) world0)
   \<and> mset (remove1 entry1 (queue fd2 @ [entry1])) = mset (queue fd2)
   \<and> vfioFd_EventRegister host_failing fd0 entry1 world0
     = (Some (host_Errno 9), fd0, emit (E_fdnotifier_UpdateFD 7) world0)
   \<and> queue (fst (snd (vfioFd_EventRegister host_ok fd0 entry1 world0))) = [entry1]
   \<and> fst (vfioFd_EventRegister host_ok fd0 entry1 world0) = None"
proof -
  obtain r fd' w' where a: "vfioFd_EventRegister host_failing fd2 entry1 world0 = (r, fd', w')"
    by (cases "vfioFd_EventRegister host_failing fd2 entry1 world0") auto
  obtain r0 fd0' w0' where b: "vfioFd_EventRegister host_failing fd0 entry1 world0 = (r0, fd0', w0')"
    by (cases "vfioFd_EventRegister host_failing fd0 entry1 world0") auto
  obtain r1 fd1' w1' where c: "vfioFd_EventRegister host_ok fd0 entry1 world0 = (r1, fd1', w1')"
    by (cases "vfioFd_EventRegister host_ok fd0 entry1 world0") auto
  have f: "host_UpdateFD host_failing (trace world0) (hostFd fd2) = Some (host_Errno 9)"
          "host_UpdateFD host_failing (trace world0) (hostFd fd0) = Some (host_Errno 9)"
          "host_UpdateFD host_ok (trace world0) (hostFd fd0) = None"
          "entry1 \<notin> set (queue fd0)"
    by (simp_all add: host_failing_def host_ok_def fd0_def)
  note A = EventRegister_rollback [OF a, where err = "host_Errno 9"]
  note B = EventRegister_rollback [OF b, where err = "host_Errno 9"]
  note C = EventRegister_rollback [OF c]
  show ?thesis
    using A B C f a b c
    by (simp add: vfioFd_EventRegister_def Let_def fdnotifier_UpdateFD_def host_failing_def host_ok_def
          Queue_EventRegister_def Queue_EventUnregister_def fd0_def fd2_def entry1_def)
qed

text \<open>
  Claim C7. \<open>EventUnregister\<close> has no error to return: it either returns nothing or
  panics. It takes the entry out of the queue and makes one call to the readiness bridge
  to resynchronise the host subscription. When that update fails it panics with the
  error of the update; when the update succeeds it returns, and the host subscription is
  the interest of the remaining waiters.
\<close>

theorem EventUnregister_panics:
  assumes "vfioFd_EventUnregister h fd e w = (out, fd', w')"
  shows "queue fd' = Queue_EventUnregister e (queue fd)
       \<and> hostFd fd' = hostFd fd
       \<and> emitted w w' = [E_fdnotifier_UpdateFD (hostFd fd)]
       \<and> (host_UpdateFD h (trace w) (hostFd fd) = Some err \<longrightarrow>
            out = Panicked (panic_Sprint ''UpdateFD:'' err))
       \<and> (host_UpdateFD h (trace w) (hostFd fd) = None \<longrightarrow>
            out = Returned ()
            \<and> subscription w' (hostFd fd) = Some (Queue_Events (queue fd')))"
  using assms
  by (auto simp: vfioFd_EventUnregister_def fdnotifier_UpdateFD_def emitted_def emit_def Let_def
        split: option.splits)

theorem EventUnregister_panics_witness:
  "fst (vfioFd_EventUnregister host_failing fd2 (Entry 2 0x10) world0)
     = Panicked (panic_Sprint ''UpdateFD:'' (host_Errno 9))
   \<and> fst (vfioFd_EventUnregister host_ok fd2 (Entry 2 0x10) world0) = Returned ()
   \<and> queue (fst (snd (vfioFd_EventUnregister host_ok fd2 (Entry 2 0x10) world0))) = [Entry 1 1]"
proof -
  obtain o1 f1 w1 where a: "vfioFd_EventUnregister host_failing fd2 (Entry 2 0x10) world0 = (o1, f1, w1)"
    by (cases "vfioFd_EventUnregister host_failing fd2 (Entry 2 0x10) world0") auto
  obtain o2 f2 w2 where b: "vfioFd_EventUnregister host_ok fd2 (Entry 2 0x10) world0 = (o2, f2, w2)"
    by (cases "vfioFd_EventUnregister host_ok fd2 (Entry 2 0x10) world0") auto
  have f: "host_UpdateFD host_failing (trace world0) (hostFd fd2) = Some (host_Errno 9)"
          "host_UpdateFD host_ok (trace world0) (hostFd fd2) = None"
    by (simp_all add: host_failing_def host_ok_def)
  show ?thesis
    using EventUnregister_panics [OF a, where err = "host_Errno 9"] EventUnregister_panics [OF b] f a b
    by (simp add: Queue_EventUnregister_def fd2_def)
qed



end
